theory Spec2Isabelle
  imports Main "HOL-Library.Word"
begin

section \<open>Strings, errors and the runtime services the module calls\<close>

text \<open>
  The module under verification is \<^verbatim>\<open>src/model/EventMessage.ts\<close>. A JavaScript string
  is modelled as a \<^typ>\<open>string\<close>, one \<^typ>\<open>char\<close> per code unit; a \<^typ>\<open>char\<close> has 256
  values, so the strings of the model are those whose code units are below 256. The
  character classes of the module hold ASCII characters only. A \<^verbatim>\<open>throw\<close>
  is a value on the left of a sum: \<^verbatim>\<open>new Error(msg)\<close> is \<open>Error msg\<close>, and the
  \<^verbatim>\<open>RangeError\<close> that \<^verbatim>\<open>Date.prototype.toISOString\<close> raises is \<open>RangeError msg\<close>.
\<close>

datatype error = Error string | RangeError string

text \<open>
  A \<^verbatim>\<open>number\<close> (the fields \<^verbatim>\<open>sampled\<close>, \<^verbatim>\<open>flags\<close> and \<^verbatim>\<open>code\<close>) is only
  stored by this module, never inspected, so its type is left opaque.
\<close>

typedecl number

subsection \<open>Regular expressions\<close>

text \<open>
  The two regular-expression literals of the module are built from three constructs of
  the ECMAScript pattern language: the assertions \<^verbatim>\<open>^\<close> and \<^verbatim>\<open>$\<close> (no \<^verbatim>\<open>m\<close>
  flag, so they hold at the start and at the end of the input only) and a character
  class under the quantifier \<^verbatim>\<open>{n}\<close>. A class is a list of single characters and of
  ranges \<^verbatim>\<open>lo-hi\<close>, compared by code unit.
\<close>

datatype ClassRange = ClassChar char | ClassDash char char

datatype Term = Caret | Dollar | Quantified "ClassRange list" nat

type_synonym RegExp = "Term list"

fun in_ClassRange :: "char \<Rightarrow> ClassRange \<Rightarrow> bool" where
  "in_ClassRange c (ClassChar a) = (c = a)"
| "in_ClassRange c (ClassDash lo hi) =
     ((of_char lo :: nat) \<le> of_char c \<and> (of_char c :: nat) \<le> of_char hi)"

text \<open>
  Matching a class at index \<open>i\<close> of the input consumes one code unit; a quantified
  class repeats that \<open>n\<close> times. The result is the index after the match, or \<open>None\<close>.
\<close>

definition match_class :: "ClassRange list \<Rightarrow> string \<Rightarrow> nat \<Rightarrow> nat option" where
  "match_class rs s i =
     (if i < length s \<and> list_ex (in_ClassRange (s ! i)) rs then Some (Suc i) else None)"

fun match_repeat :: "ClassRange list \<Rightarrow> nat \<Rightarrow> string \<Rightarrow> nat \<Rightarrow> nat option" where
  "match_repeat rs 0 s i = Some i"
| "match_repeat rs (Suc n) s i =
     (case match_class rs s i of None \<Rightarrow> None | Some j \<Rightarrow> match_repeat rs n s j)"

fun match_term :: "Term \<Rightarrow> string \<Rightarrow> nat \<Rightarrow> nat option" where
  "match_term Caret s i = (if i = 0 then Some i else None)"
| "match_term Dollar s i = (if i = length s then Some i else None)"
| "match_term (Quantified rs n) s i = match_repeat rs n s i"

fun match_terms :: "RegExp \<Rightarrow> string \<Rightarrow> nat \<Rightarrow> nat option" where
  "match_terms [] s i = Some i"
| "match_terms (t # ts) s i =
     (case match_term t s i of None \<Rightarrow> None | Some j \<Rightarrow> match_terms ts s j)"

text \<open>
  \<^verbatim>\<open>RegExp.prototype.test\<close> on a literal without the \<^verbatim>\<open>g\<close> and \<^verbatim>\<open>y\<close> flags tries
  every start index from 0 to the length of the input and answers whether one matches.
\<close>

definition RegExp_test :: "RegExp \<Rightarrow> string \<Rightarrow> bool" where
  "RegExp_test r s = list_ex (\<lambda>i. match_terms r s i \<noteq> None) [0..<Suc (length s)]"

text \<open>\<^verbatim>\<open>const TRACE_ID_REGEX = /^[0-9abcdef]{32}$/; const SPAN_ID_REGEX = /^[0-9abcdef]{16}$/\<close>\<close>

definition hex_class :: "ClassRange list" where
  "hex_class = [ClassDash CHR ''0'' CHR ''9'', ClassChar CHR ''a'', ClassChar CHR ''b'',
     ClassChar CHR ''c'', ClassChar CHR ''d'', ClassChar CHR ''e'', ClassChar CHR ''f'']"

definition TRACE_ID_REGEX :: RegExp where
  "TRACE_ID_REGEX = [Caret, Quantified hex_class 32, Dollar]"

definition SPAN_ID_REGEX :: RegExp where
  "SPAN_ID_REGEX = [Caret, Quantified hex_class 16, Dollar]"

text \<open>
  The specification's wording of the two checks: \<^verbatim>\<open>isValidTraceId(s)\<close> is true iff
  \<open>s\<close> matches \<^verbatim>\<open>^[0-9a-f]{32}$\<close>, \<^verbatim>\<open>isValidSpanId(s)\<close> iff \<open>s\<close> matches
  \<^verbatim>\<open>^[0-9a-f]{16}$\<close>; that is, \<open>s\<close> is exactly 32 (16) lowercase hexadecimal
  characters.
\<close>

definition spec_hex_class :: "ClassRange list" where
  "spec_hex_class = [ClassDash CHR ''0'' CHR ''9'', ClassDash CHR ''a'' CHR ''f'']"

definition spec_isValidTraceId :: "string \<Rightarrow> bool" where
  "spec_isValidTraceId s = RegExp_test [Caret, Quantified spec_hex_class 32, Dollar] s"

definition spec_isValidSpanId :: "string \<Rightarrow> bool" where
  "spec_isValidSpanId s = RegExp_test [Caret, Quantified spec_hex_class 16, Dollar] s"

definition lowercase_hex :: "char set" where
  "lowercase_hex = set ''0123456789abcdef''"

subsection \<open>Dates and the clock\<close>

text \<open>
  The module does one thing with a \<^verbatim>\<open>Date\<close>: it calls \<^verbatim>\<open>toISOString()\<close>, which
  returns the ISO 8601 rendering of a valid date and throws a \<^verbatim>\<open>RangeError\<close> for an
  invalid one (a time value of NaN, as in \<^verbatim>\<open>new Date("x")\<close>). A date is therefore
  modelled by that rendering. \<^verbatim>\<open>new Date()\<close> reads the clock and is always valid; the
  reading, rendered, is the parameter \<open>clock\<close> of every operation that takes the time.
\<close>

datatype Date = ValidDate string | InvalidDate

fun toISOString :: "Date \<Rightarrow> error + string" where
  "toISOString (ValidDate isoString) = Inr isoString"
| "toISOString InvalidDate = Inl (RangeError ''Invalid time value'')"

definition new_Date :: "string \<Rightarrow> Date" where
  "new_Date clock = ValidDate clock"

text \<open>The union type \<^verbatim>\<open>string | Date\<close>; \<^verbatim>\<open>x instanceof Date\<close> holds of \<open>DateValue\<close>.\<close>

datatype string_or_Date = Str string | DateValue Date

text \<open>Truthiness of a string: every string but the empty one.\<close>

definition truthy :: "string \<Rightarrow> bool" where
  "truthy s = (s \<noteq> [])"

subsection \<open>Random bytes and their hexadecimal rendering\<close>

text \<open>
  Modelled from the spec: \<^verbatim>\<open>crypto.randomBytes(n)\<close> and \<^verbatim>\<open>Buffer.toString('hex')\<close>
  belong to the Node.js runtime. The first "produces n cryptographically random bytes":
  here the first \<open>n\<close> bytes of an entropy source that is a parameter. The second
  "hex-encodes" them: two lowercase hexadecimal digits per byte, high nibble first.
\<close>

definition randomBytes :: "(nat \<Rightarrow> 8 word) \<Rightarrow> nat \<Rightarrow> 8 word list" where
  "randomBytes entropy n = map entropy [0..<n]"

definition hex_digit :: "nat \<Rightarrow> char" where
  "hex_digit n = ''0123456789abcdef'' ! (n mod 16)"

fun toString_hex :: "8 word list \<Rightarrow> string" where
  "toString_hex [] = []"
| "toString_hex (b # bs) =
     hex_digit (unat b div 16) # hex_digit (unat b mod 16) # toString_hex bs"

section \<open>Event types and actions\<close>

text \<open>
  The enums of the module are string enums: a member is, at run time, the string it is
  initialised with. Each enum is a datatype, with the string as its \<open>value\<close>.
\<close>

datatype EventType =
  EventType_undefined | EventType_log | EventType_audit | EventType_error | EventType_trace

fun EventType_value :: "EventType \<Rightarrow> string" where
  "EventType_value EventType_undefined = ''undefined''"
| "EventType_value EventType_log = ''log''"
| "EventType_value EventType_audit = ''audit''"
| "EventType_value EventType_error = ''error''"
| "EventType_value EventType_trace = ''trace''"

datatype LogEventAction =
  LogEventAction_info | LogEventAction_debug | LogEventAction_verbose | LogEventAction_perf

datatype AuditEventAction = AuditEventAction_default

datatype ErrorEventAction = ErrorEventAction_internal | ErrorEventAction_external

datatype TraceEventAction = TraceEventAction_span

datatype NullEventAction = NullEventAction_undefined

text \<open>
  \<^verbatim>\<open>type EventAction = AuditEventAction | ErrorEventAction | LogEventAction |
  TraceEventAction | NullEventAction\<close>
\<close>

datatype EventAction =
  AuditAction AuditEventAction
| ErrorAction ErrorEventAction
| LogAction LogEventAction
| TraceAction TraceEventAction
| NullAction NullEventAction

fun EventAction_value :: "EventAction \<Rightarrow> string" where
  "EventAction_value (LogAction LogEventAction_info) = ''info''"
| "EventAction_value (LogAction LogEventAction_debug) = ''debug''"
| "EventAction_value (LogAction LogEventAction_verbose) = ''verbose''"
| "EventAction_value (LogAction LogEventAction_perf) = ''perf''"
| "EventAction_value (AuditAction AuditEventAction_default) = ''default''"
| "EventAction_value (ErrorAction ErrorEventAction_internal) = ''internal''"
| "EventAction_value (ErrorAction ErrorEventAction_external) = ''external''"
| "EventAction_value (TraceAction TraceEventAction_span) = ''span''"
| "EventAction_value (NullAction NullEventAction_undefined) = ''undefined''"

subsection \<open>The \<^verbatim>\<open>EventTypeAction\<close> hierarchy\<close>

text \<open>
  An instance of one of the four concrete subclasses is its class, which fixes what
  \<^verbatim>\<open>getType()\<close> returns, and the field \<^verbatim>\<open>action\<close>. The abstract base class has no
  instance of its own. The parameter type of each constructor is a union of two enums,
  here a sum; the compiler admits no other argument.
\<close>

datatype EventTypeAction_class =
  LogEventTypeAction | AuditEventTypeAction | ErrorEventTypeAction | TraceEventTypeAction

record EventTypeAction =
  prototype :: EventTypeAction_class
  action :: EventAction

text \<open>\<^verbatim>\<open>static readonly type: EventType\<close> of each subclass.\<close>

fun static_type :: "EventTypeAction_class \<Rightarrow> EventType" where
  "static_type LogEventTypeAction = EventType_log"
| "static_type AuditEventTypeAction = EventType_audit"
| "static_type ErrorEventTypeAction = EventType_error"
| "static_type TraceEventTypeAction = EventType_trace"

definition getType :: "EventTypeAction \<Rightarrow> EventType" where
  "getType this = static_type (prototype this)"

text \<open>
  Every constructor runs the field initialiser \<^verbatim>\<open>action = NullEventAction.undefined\<close>
  and then assigns its argument.
\<close>

definition new_LogEventTypeAction :: "LogEventAction + NullEventAction \<Rightarrow> EventTypeAction" where
  "new_LogEventTypeAction action' =
     \<lparr>prototype = LogEventTypeAction, action = NullAction NullEventAction_undefined\<rparr>
       \<lparr>action := (case action' of Inl a \<Rightarrow> LogAction a | Inr u \<Rightarrow> NullAction u)\<rparr>"

definition new_AuditEventTypeAction :: "AuditEventAction + NullEventAction \<Rightarrow> EventTypeAction" where
  "new_AuditEventTypeAction action' =
     \<lparr>prototype = AuditEventTypeAction, action = NullAction NullEventAction_undefined\<rparr>
       \<lparr>action := (case action' of Inl a \<Rightarrow> AuditAction a | Inr u \<Rightarrow> NullAction u)\<rparr>"

definition new_ErrorEventTypeAction :: "ErrorEventAction + NullEventAction \<Rightarrow> EventTypeAction" where
  "new_ErrorEventTypeAction action' =
     \<lparr>prototype = ErrorEventTypeAction, action = NullAction NullEventAction_undefined\<rparr>
       \<lparr>action := (case action' of Inl a \<Rightarrow> ErrorAction a | Inr u \<Rightarrow> NullAction u)\<rparr>"

definition new_TraceEventTypeAction :: "TraceEventAction + NullEventAction \<Rightarrow> EventTypeAction" where
  "new_TraceEventTypeAction action' =
     \<lparr>prototype = TraceEventTypeAction, action = NullAction NullEventAction_undefined\<rparr>
       \<lparr>action := (case action' of Inl a \<Rightarrow> TraceAction a | Inr u \<Rightarrow> NullAction u)\<rparr>"

text \<open>The instances a program can build: the results of the four constructors.\<close>

inductive constructible :: "EventTypeAction \<Rightarrow> bool" where
  "constructible (new_LogEventTypeAction a)"
| "constructible (new_AuditEventTypeAction a)"
| "constructible (new_ErrorEventTypeAction a)"
| "constructible (new_TraceEventTypeAction a)"

text \<open>
  The specification's table of legal actions, by the strings it lists: log admits info,
  debug, verbose and perf; audit admits default; error admits internal and external;
  trace admits span.
\<close>

fun spec_legal_actions :: "EventType \<Rightarrow> string set" where
  "spec_legal_actions EventType_log = {''info'', ''debug'', ''verbose'', ''perf''}"
| "spec_legal_actions EventType_audit = {''default''}"
| "spec_legal_actions EventType_error = {''internal'', ''external''}"
| "spec_legal_actions EventType_trace = {''span''}"
| "spec_legal_actions EventType_undefined = {}"

section \<open>Trace metadata\<close>

record EventTraceMetadata =
  service :: string
  traceId :: string
  spanId :: string
  parentSpanId :: "string option"
  sampled :: "number option"
  flags :: "number option"
  startTimestamp :: "string option"
  finishTimestamp :: "string option"

text \<open>
  Lines 167 to 171 of the constructor: a \<^verbatim>\<open>Date\<close> argument is rendered, a truthy
  string is stored, and anything else leaves the field as the initialiser set it.
\<close>

fun assign_startTimestamp ::
  "EventTraceMetadata \<Rightarrow> string_or_Date option \<Rightarrow> error + EventTraceMetadata" where
  "assign_startTimestamp this (Some (DateValue d)) =
     (case toISOString d of
        Inl e \<Rightarrow> Inl e
      | Inr isoString \<Rightarrow> Inr (this\<lparr>startTimestamp := Some isoString\<rparr>))"
| "assign_startTimestamp this (Some (Str s)) =
     (if truthy s then Inr (this\<lparr>startTimestamp := Some s\<rparr>) else Inr this)"
| "assign_startTimestamp this None = Inr this"

text \<open>
  The constructor. The initialiser of \<^verbatim>\<open>startTimestamp\<close> runs first; the three checks
  follow in the order of the source, each throwing before any later field is assigned.
  A constructor that throws returns no object: the result is the error alone.
\<close>

definition new_EventTraceMetadata ::
  "string \<Rightarrow> string \<Rightarrow> string \<Rightarrow> string \<Rightarrow> string option \<Rightarrow> number option \<Rightarrow> number option
     \<Rightarrow> string_or_Date option \<Rightarrow> error + EventTraceMetadata" where
  "new_EventTraceMetadata clock service' traceId' spanId' parentSpanId' sampled' flags'
       startTimestamp' =
     (case toISOString (new_Date clock) of
        Inl e \<Rightarrow> Inl e
      | Inr initial \<Rightarrow>
          if \<not> RegExp_test TRACE_ID_REGEX traceId' then
            Inl (Error (''Invalid traceId: '' @ traceId'))
          else if \<not> RegExp_test SPAN_ID_REGEX spanId' then
            Inl (Error (''Invalid spanId: '' @ spanId'))
          else if (case parentSpanId' of
                     None \<Rightarrow> False
                   | Some p \<Rightarrow> truthy p \<and> \<not> RegExp_test SPAN_ID_REGEX p) then
            Inl (Error (''Invalid parentSpanId: '' @ (case parentSpanId' of
                                                         None \<Rightarrow> ''undefined''
                                                       | Some p \<Rightarrow> p)))
          else
            assign_startTimestamp
              \<lparr>service = service', traceId = traceId', spanId = spanId',
               parentSpanId = parentSpanId', sampled = sampled', flags = flags',
               startTimestamp = Some initial, finishTimestamp = None\<rparr>
              startTimestamp')"

text \<open>
  \<^verbatim>\<open>finish\<close> mutates the instance: the model returns the instance after the call, or
  the error thrown, in which case the instance is as it was.
\<close>

fun finish ::
  "string \<Rightarrow> EventTraceMetadata \<Rightarrow> string_or_Date option \<Rightarrow> error + EventTraceMetadata" where
  "finish clock this (Some (DateValue d)) =
     (case toISOString d of
        Inl e \<Rightarrow> Inl e
      | Inr isoString \<Rightarrow> Inr (this\<lparr>finishTimestamp := Some isoString\<rparr>))"
| "finish clock this (Some (Str s)) =
     (if \<not> truthy s then
        (case toISOString (new_Date clock) of
           Inl e \<Rightarrow> Inl e
         | Inr isoString \<Rightarrow> Inr (this\<lparr>finishTimestamp := Some isoString\<rparr>))
      else Inr (this\<lparr>finishTimestamp := Some s\<rparr>))"
| "finish clock this None =
     (case toISOString (new_Date clock) of
        Inl e \<Rightarrow> Inl e
      | Inr isoString \<Rightarrow> Inr (this\<lparr>finishTimestamp := Some isoString\<rparr>))"

section \<open>Event metadata\<close>

datatype EventStatusType = EventStatusType_success | EventStatusType_failed

record EventStateMetadata =
  status :: EventStatusType
  code :: "number option"
  description :: "string option"

definition new_EventStateMetadata ::
  "EventStatusType \<Rightarrow> number option \<Rightarrow> string option \<Rightarrow> EventStateMetadata" where
  "new_EventStateMetadata status' code' description' =
     \<lparr>status = status', code = code', description = description'\<rparr>"

text \<open>
  The fields \<^verbatim>\<open>id\<close>, \<^verbatim>\<open>type\<close> and \<^verbatim>\<open>action\<close> of \<^verbatim>\<open>EventMetadata\<close> carry the
  prefix \<open>event_\<close> here. The initialisers of the three are overwritten by the constructor
  before it returns.
\<close>

record EventMetadata =
  event_id :: string
  event_type :: EventType
  event_action :: EventAction
  createdAt :: string
  state :: EventStateMetadata
  responseTo :: "string option"

fun new_EventMetadata ::
  "string \<Rightarrow> EventTypeAction \<Rightarrow> string_or_Date \<Rightarrow> EventStateMetadata \<Rightarrow> string option
     \<Rightarrow> error + EventMetadata" where
  "new_EventMetadata id' typeAction (DateValue d) state' responseTo' =
     (case toISOString d of
        Inl e \<Rightarrow> Inl e
      | Inr isoString \<Rightarrow>
          Inr \<lparr>event_id = id', event_type = getType typeAction,
               event_action = action typeAction, createdAt = isoString, state = state',
               responseTo = responseTo'\<rparr>)"
| "new_EventMetadata id' typeAction (Str s) state' responseTo' =
     Inr \<lparr>event_id = id', event_type = getType typeAction,
          event_action = action typeAction, createdAt = s, state = state',
          responseTo = responseTo'\<rparr>"

text \<open>The static factories; each takes \<^verbatim>\<open>createdAt\<close> as a string.\<close>

definition EventMetadata_create ::
  "string \<Rightarrow> EventTypeAction \<Rightarrow> string \<Rightarrow> EventStateMetadata \<Rightarrow> string option
     \<Rightarrow> error + EventMetadata" where
  "EventMetadata_create id' typeAction createdAt' state' responseTo' =
     new_EventMetadata id' typeAction (Str createdAt') state' responseTo'"

definition EventMetadata_log ::
  "string \<Rightarrow> LogEventAction \<Rightarrow> string \<Rightarrow> EventStateMetadata \<Rightarrow> string option
     \<Rightarrow> error + EventMetadata" where
  "EventMetadata_log id' action' createdAt' state' responseTo' =
     (let typeAction = new_LogEventTypeAction (Inl action')
      in new_EventMetadata id' typeAction (Str createdAt') state' responseTo')"

definition EventMetadata_trace ::
  "string \<Rightarrow> TraceEventAction \<Rightarrow> string \<Rightarrow> EventStateMetadata \<Rightarrow> string option
     \<Rightarrow> error + EventMetadata" where
  "EventMetadata_trace id' action' createdAt' state' responseTo' =
     (let typeAction = new_TraceEventTypeAction (Inl action')
      in new_EventMetadata id' typeAction (Str createdAt') state' responseTo')"

definition EventMetadata_audit ::
  "string \<Rightarrow> AuditEventAction \<Rightarrow> string \<Rightarrow> EventStateMetadata \<Rightarrow> string option
     \<Rightarrow> error + EventMetadata" where
  "EventMetadata_audit id' action' createdAt' state' responseTo' =
     (let typeAction = new_AuditEventTypeAction (Inl action')
      in new_EventMetadata id' typeAction (Str createdAt') state' responseTo')"

definition EventMetadata_error ::
  "string \<Rightarrow> ErrorEventAction \<Rightarrow> string \<Rightarrow> EventStateMetadata \<Rightarrow> string option
     \<Rightarrow> error + EventMetadata" where
  "EventMetadata_error id' action' createdAt' state' responseTo' =
     (let typeAction = new_ErrorEventTypeAction (Inl action')
      in new_EventMetadata id' typeAction (Str createdAt') state' responseTo')"

section \<open>Identifier generation\<close>

definition newTraceId :: "(nat \<Rightarrow> 8 word) \<Rightarrow> string" where
  "newTraceId entropy = toString_hex (randomBytes entropy 16)"

definition newSpanId :: "(nat \<Rightarrow> 8 word) \<Rightarrow> string" where
  "newSpanId entropy = toString_hex (randomBytes entropy 8)"

section \<open>Identifier validation\<close>

lemma match_repeat_eq:
  "i \<le> length s \<Longrightarrow> match_repeat rs n s i =
     (if i + n \<le> length s \<and> list_all (\<lambda>c. list_ex (in_ClassRange c) rs) (take n (drop i s))
      then Some (i + n) else None)"
proof (induction n arbitrary: i)
  case 0
  then show ?case by simp
next
  case (Suc n)
  show ?case
  proof (cases "i < length s")
    case False
    then show ?thesis by (simp add: match_class_def)
  next
    case True
    then have d: "drop i s = s ! i # drop (Suc i) s"
      by (simp add: Cons_nth_drop_Suc)
    show ?thesis
      using True by (auto simp: match_class_def Suc d)
  qed
qed

lemma anchored_test:
  "RegExp_test [Caret, Quantified rs n, Dollar] s =
     (length s = n \<and> list_all (\<lambda>c. list_ex (in_ClassRange c) rs) s)"
proof -
  have at: "(match_terms [Caret, Quantified rs n, Dollar] s i \<noteq> None) =
      (i = 0 \<and> length s = n \<and> list_all (\<lambda>c. list_ex (in_ClassRange c) rs) s)" for i
    by (auto simp: match_repeat_eq)
  show ?thesis
    unfolding RegExp_test_def list_ex_iff at by auto
qed

lemma of_char_natD: "(of_char c :: nat) = of_char d \<Longrightarrow> c = d"
  by (simp only: of_char_eq_iff)

lemma char_range_digit:
  "((48::nat) \<le> of_char c \<and> (of_char c :: nat) \<le> 57) = (c \<in> set ''0123456789'')"
proof
  assume a: "(48::nat) \<le> of_char c \<and> (of_char c :: nat) \<le> 57"
  define n :: nat where "n = of_char c"
  from a have "48 \<le> n" "n \<le> 57" by (simp_all add: n_def)
  then have "n = 48 \<or> n = 49 \<or> n = 50 \<or> n = 51 \<or> n = 52 \<or> n = 53 \<or> n = 54 \<or> n = 55
      \<or> n = 56 \<or> n = 57"
    by arith
  then show "c \<in> set ''0123456789''"
    using of_char_natD [of c "CHR ''0''"] of_char_natD [of c "CHR ''1''"]
      of_char_natD [of c "CHR ''2''"] of_char_natD [of c "CHR ''3''"]
      of_char_natD [of c "CHR ''4''"] of_char_natD [of c "CHR ''5''"]
      of_char_natD [of c "CHR ''6''"] of_char_natD [of c "CHR ''7''"]
      of_char_natD [of c "CHR ''8''"] of_char_natD [of c "CHR ''9''"]
    unfolding n_def by (elim disjE) simp_all
next
  assume "c \<in> set ''0123456789''"
  then show "(48::nat) \<le> of_char c \<and> (of_char c :: nat) \<le> 57" by auto
qed

lemma char_range_af:
  "((97::nat) \<le> of_char c \<and> (of_char c :: nat) \<le> 102) = (c \<in> set ''abcdef'')"
proof
  assume a: "(97::nat) \<le> of_char c \<and> (of_char c :: nat) \<le> 102"
  define n :: nat where "n = of_char c"
  from a have "97 \<le> n" "n \<le> 102" by (simp_all add: n_def)
  then have "n = 97 \<or> n = 98 \<or> n = 99 \<or> n = 100 \<or> n = 101 \<or> n = 102"
    by arith
  then show "c \<in> set ''abcdef''"
    using of_char_natD [of c "CHR ''a''"] of_char_natD [of c "CHR ''b''"]
      of_char_natD [of c "CHR ''c''"] of_char_natD [of c "CHR ''d''"]
      of_char_natD [of c "CHR ''e''"] of_char_natD [of c "CHR ''f''"]
    unfolding n_def by (elim disjE) simp_all
next
  assume "c \<in> set ''abcdef''"
  then show "(97::nat) \<le> of_char c \<and> (of_char c :: nat) \<le> 102" by auto
qed

lemma in_hex_class: "list_ex (in_ClassRange c) hex_class = (c \<in> lowercase_hex)"
  using char_range_digit[of c] by (auto simp: hex_class_def lowercase_hex_def)

lemma in_spec_hex_class: "list_ex (in_ClassRange c) spec_hex_class = (c \<in> lowercase_hex)"
  using char_range_digit[of c] char_range_af[of c] by (auto simp: spec_hex_class_def lowercase_hex_def)

lemma TRACE_ID_REGEX_test:
  "RegExp_test TRACE_ID_REGEX s = (length s = 32 \<and> set s \<subseteq> lowercase_hex)"
  by (auto simp: TRACE_ID_REGEX_def anchored_test in_hex_class list_all_iff)

lemma SPAN_ID_REGEX_test:
  "RegExp_test SPAN_ID_REGEX s = (length s = 16 \<and> set s \<subseteq> lowercase_hex)"
  by (auto simp: SPAN_ID_REGEX_def anchored_test in_hex_class list_all_iff)

lemma spec_isValidTraceId_eq:
  "spec_isValidTraceId s = (length s = 32 \<and> set s \<subseteq> lowercase_hex)"
  by (auto simp: spec_isValidTraceId_def anchored_test in_spec_hex_class list_all_iff)

lemma spec_isValidSpanId_eq:
  "spec_isValidSpanId s = (length s = 16 \<and> set s \<subseteq> lowercase_hex)"
  by (auto simp: spec_isValidSpanId_def anchored_test in_spec_hex_class list_all_iff)

text \<open>
  Claim C3. For every string \<open>s\<close>, the trace-id check of the module
  (\<^verbatim>\<open>TRACE_ID_REGEX.test(s)\<close>) accepts \<open>s\<close> if and only if \<open>s\<close> matches
  \<^verbatim>\<open>^[0-9a-f]{32}$\<close>, that is, \<open>s\<close> is exactly 32 lowercase hexadecimal characters;
  and the span-id check (\<^verbatim>\<open>SPAN_ID_REGEX.test(s)\<close>) accepts \<open>s\<close> if and only if
  \<open>s\<close> matches \<^verbatim>\<open>^[0-9a-f]{16}$\<close>, exactly 16 lowercase hexadecimal characters.
\<close>

theorem C3_identifier_checks:
  "RegExp_test TRACE_ID_REGEX s = spec_isValidTraceId s
   \<and> RegExp_test TRACE_ID_REGEX s = (length s = 32 \<and> set s \<subseteq> lowercase_hex)
   \<and> RegExp_test SPAN_ID_REGEX s = spec_isValidSpanId s
   \<and> RegExp_test SPAN_ID_REGEX s = (length s = 16 \<and> set s \<subseteq> lowercase_hex)"
  by (simp only: TRACE_ID_REGEX_test SPAN_ID_REGEX_test spec_isValidTraceId_eq
      spec_isValidSpanId_eq simp_thms)

theorem C3_identifier_checks_witness:
  "RegExp_test TRACE_ID_REGEX ''0123456789abcdef0123456789abcdef''
   \<and> spec_isValidTraceId ''0123456789abcdef0123456789abcdef''
   \<and> \<not> RegExp_test SPAN_ID_REGEX ''0123456789abcdef0123456789abcdef''
   \<and> \<not> spec_isValidSpanId ''0123456789abcdef0123456789abcdef''"
  using C3_identifier_checks [of "''0123456789abcdef0123456789abcdef''"]
  by (auto simp add: lowercase_hex_def)

section \<open>Generated identifiers\<close>

lemma hex_digit_lowercase: "hex_digit n \<in> lowercase_hex"
proof -
  define k where "k = n mod 16"
  have "k < 16" by (simp add: k_def)
  then have "k = 0 \<or> k = 1 \<or> k = 2 \<or> k = 3 \<or> k = 4 \<or> k = 5 \<or> k = 6 \<or> k = 7 \<or> k = 8
      \<or> k = 9 \<or> k = 10 \<or> k = 11 \<or> k = 12 \<or> k = 13 \<or> k = 14 \<or> k = 15"
    by arith
  then have "''0123456789abcdef'' ! k \<in> lowercase_hex"
    unfolding lowercase_hex_def by (elim disjE) simp_all
  then show ?thesis by (simp add: hex_digit_def k_def)
qed

lemma toString_hex_length: "length (toString_hex bs) = 2 * length bs"
  by (induction bs) auto

lemma toString_hex_set: "set (toString_hex bs) \<subseteq> lowercase_hex"
  by (induction bs) (auto simp: hex_digit_lowercase)

text \<open>
  Claim C7. Every string returned by \<^verbatim>\<open>newTraceId()\<close> passes the trace-id check and
  every string returned by \<^verbatim>\<open>newSpanId()\<close> passes the span-id check, whatever the
  random bytes are: the hexadecimal rendering of a byte sequence is a valid trace id
  exactly when there are 16 bytes, and a valid span id exactly when there are 8.
\<close>

theorem C7_generated_ids_valid:
  "RegExp_test TRACE_ID_REGEX (newTraceId entropy)
   \<and> RegExp_test SPAN_ID_REGEX (newSpanId entropy)
   \<and> RegExp_test TRACE_ID_REGEX (toString_hex bs) = (length bs = 16)
   \<and> RegExp_test SPAN_ID_REGEX (toString_hex bs) = (length bs = 8)"
  by (simp add: TRACE_ID_REGEX_test SPAN_ID_REGEX_test newTraceId_def newSpanId_def
      randomBytes_def toString_hex_length toString_hex_set)

theorem C7_generated_ids_valid_witness:
  "RegExp_test TRACE_ID_REGEX
     (toString_hex [0, 1, 2, 3, 4, 5, 6, 7, 8, 9, 10, 11, 12, 13, 14, 255])
   \<and> \<not> RegExp_test SPAN_ID_REGEX
     (toString_hex [0, 1, 2, 3, 4, 5, 6, 7, 8, 9, 10, 11, 12, 13, 14, 255])"
  using C7_generated_ids_valid [of undefined "[0, 1, 2, 3, 4, 5, 6, 7, 8, 9, 10, 11, 12, 13, 14, 255]"]
  by simp

section \<open>The compatibility of types and actions\<close>

lemma constructible_legal:
  "constructible x \<Longrightarrow>
     EventAction_value (action x) \<in> spec_legal_actions (getType x) \<union> {''undefined''}"
proof (induction rule: constructible.induct)
  case (1 a)
  show ?case
  proof (cases a)
    case (Inl l)
    then show ?thesis by (cases l) (simp_all add: new_LogEventTypeAction_def getType_def)
  next
    case (Inr u)
    then show ?thesis by (cases u) (simp add: new_LogEventTypeAction_def getType_def)
  qed
next
  case (2 a)
  show ?case
  proof (cases a)
    case (Inl l)
    then show ?thesis by (cases l) (simp_all add: new_AuditEventTypeAction_def getType_def)
  next
    case (Inr u)
    then show ?thesis by (cases u) (simp add: new_AuditEventTypeAction_def getType_def)
  qed
next
  case (3 a)
  show ?case
  proof (cases a)
    case (Inl l)
    then show ?thesis by (cases l) (simp_all add: new_ErrorEventTypeAction_def getType_def)
  next
    case (Inr u)
    then show ?thesis by (cases u) (simp add: new_ErrorEventTypeAction_def getType_def)
  qed
next
  case (4 a)
  show ?case
  proof (cases a)
    case (Inl l)
    then show ?thesis by (cases l) (simp_all add: new_TraceEventTypeAction_def getType_def)
  next
    case (Inr u)
    then show ?thesis by (cases u) (simp add: new_TraceEventTypeAction_def getType_def)
  qed
qed

text \<open>
  Claim C1. For every instance that one of the four constructors
  (\<^verbatim>\<open>LogEventTypeAction\<close>, \<^verbatim>\<open>AuditEventTypeAction\<close>, \<^verbatim>\<open>ErrorEventTypeAction\<close>,
  \<^verbatim>\<open>TraceEventTypeAction\<close>) builds, the value of its \<^verbatim>\<open>action\<close> belongs to the legal
  action set of its category (log: info, debug, verbose, perf; audit: default; error:
  internal, external; trace: span) or is the universal \<^verbatim>\<open>undefined\<close>; and for every
  category \<open>c\<close> and every action \<open>a\<close> in the legal set of \<open>c\<close>, the constructor of the
  variant for \<open>c\<close>, applied to \<open>a\<close>, returns an instance whose \<^verbatim>\<open>action\<close> is \<open>a\<close> and
  whose \<^verbatim>\<open>getType()\<close> returns \<open>c\<close>. The first four conjuncts take each constructor
  with any argument of its type; the next four take each legal action string of a
  category to the member of the category's enum that has this value; the last is the
  invariant over all constructible instances.
\<close>

theorem C1_action_in_category:
  "(getType (new_LogEventTypeAction al) = EventType_log
      \<and> (EventAction_value (action (new_LogEventTypeAction al))
            \<in> spec_legal_actions EventType_log
          \<or> EventAction_value (action (new_LogEventTypeAction al)) = ''undefined''))
   \<and> (getType (new_AuditEventTypeAction aa) = EventType_audit
      \<and> (EventAction_value (action (new_AuditEventTypeAction aa))
            \<in> spec_legal_actions EventType_audit
          \<or> EventAction_value (action (new_AuditEventTypeAction aa)) = ''undefined''))
   \<and> (getType (new_ErrorEventTypeAction ae) = EventType_error
      \<and> (EventAction_value (action (new_ErrorEventTypeAction ae))
            \<in> spec_legal_actions EventType_error
          \<or> EventAction_value (action (new_ErrorEventTypeAction ae)) = ''undefined''))
   \<and> (getType (new_TraceEventTypeAction at) = EventType_trace
      \<and> (EventAction_value (action (new_TraceEventTypeAction at))
            \<in> spec_legal_actions EventType_trace
          \<or> EventAction_value (action (new_TraceEventTypeAction at)) = ''undefined''))
   \<and> (\<forall>a \<in> spec_legal_actions EventType_log.
        \<exists>l. EventAction_value (LogAction l) = a
          \<and> action (new_LogEventTypeAction (Inl l)) = LogAction l
          \<and> getType (new_LogEventTypeAction (Inl l)) = EventType_log)
   \<and> (\<forall>a \<in> spec_legal_actions EventType_audit.
        \<exists>l. EventAction_value (AuditAction l) = a
          \<and> action (new_AuditEventTypeAction (Inl l)) = AuditAction l
          \<and> getType (new_AuditEventTypeAction (Inl l)) = EventType_audit)
   \<and> (\<forall>a \<in> spec_legal_actions EventType_error.
        \<exists>l. EventAction_value (ErrorAction l) = a
          \<and> action (new_ErrorEventTypeAction (Inl l)) = ErrorAction l
          \<and> getType (new_ErrorEventTypeAction (Inl l)) = EventType_error)
   \<and> (\<forall>a \<in> spec_legal_actions EventType_trace.
        \<exists>l. EventAction_value (TraceAction l) = a
          \<and> action (new_TraceEventTypeAction (Inl l)) = TraceAction l
          \<and> getType (new_TraceEventTypeAction (Inl l)) = EventType_trace)
   \<and> spec_legal_actions EventType_undefined = {}
   \<and> (\<forall>x. constructible x \<longrightarrow>
        EventAction_value (action x) \<in> spec_legal_actions (getType x)
          \<or> EventAction_value (action x) = ''undefined'')"
proof (intro conjI)
  show "getType (new_LogEventTypeAction al) = EventType_log"
    and "getType (new_AuditEventTypeAction aa) = EventType_audit"
    and "getType (new_ErrorEventTypeAction ae) = EventType_error"
    and "getType (new_TraceEventTypeAction at) = EventType_trace"
    by (simp_all add: getType_def new_LogEventTypeAction_def new_AuditEventTypeAction_def
        new_ErrorEventTypeAction_def new_TraceEventTypeAction_def)
next
  have g: "getType (new_LogEventTypeAction al) = EventType_log"
    by (simp add: getType_def new_LogEventTypeAction_def)
  have "constructible (new_LogEventTypeAction al)"
    by (rule constructible.intros)
  from constructible_legal [OF this]
  show "EventAction_value (action (new_LogEventTypeAction al))
            \<in> spec_legal_actions EventType_log
          \<or> EventAction_value (action (new_LogEventTypeAction al)) = ''undefined''"
    unfolding g by blast
next
  have g: "getType (new_AuditEventTypeAction aa) = EventType_audit"
    by (simp add: getType_def new_AuditEventTypeAction_def)
  have "constructible (new_AuditEventTypeAction aa)"
    by (rule constructible.intros)
  from constructible_legal [OF this]
  show "EventAction_value (action (new_AuditEventTypeAction aa))
            \<in> spec_legal_actions EventType_audit
          \<or> EventAction_value (action (new_AuditEventTypeAction aa)) = ''undefined''"
    unfolding g by blast
next
  have g: "getType (new_ErrorEventTypeAction ae) = EventType_error"
    by (simp add: getType_def new_ErrorEventTypeAction_def)
  have "constructible (new_ErrorEventTypeAction ae)"
    by (rule constructible.intros)
  from constructible_legal [OF this]
  show "EventAction_value (action (new_ErrorEventTypeAction ae))
            \<in> spec_legal_actions EventType_error
          \<or> EventAction_value (action (new_ErrorEventTypeAction ae)) = ''undefined''"
    unfolding g by blast
next
  have g: "getType (new_TraceEventTypeAction at) = EventType_trace"
    by (simp add: getType_def new_TraceEventTypeAction_def)
  have "constructible (new_TraceEventTypeAction at)"
    by (rule constructible.intros)
  from constructible_legal [OF this]
  show "EventAction_value (action (new_TraceEventTypeAction at))
            \<in> spec_legal_actions EventType_trace
          \<or> EventAction_value (action (new_TraceEventTypeAction at)) = ''undefined''"
    unfolding g by blast
next
  show "\<forall>a \<in> spec_legal_actions EventType_log.
        \<exists>l. EventAction_value (LogAction l) = a
          \<and> action (new_LogEventTypeAction (Inl l)) = LogAction l
          \<and> getType (new_LogEventTypeAction (Inl l)) = EventType_log"
  proof
    fix a
    assume "a \<in> spec_legal_actions EventType_log"
    then consider "a = ''info''" | "a = ''debug''" | "a = ''verbose''" | "a = ''perf''"
      by auto
    then show "\<exists>l. EventAction_value (LogAction l) = a
          \<and> action (new_LogEventTypeAction (Inl l)) = LogAction l
          \<and> getType (new_LogEventTypeAction (Inl l)) = EventType_log"
    proof cases
      case 1
      then show ?thesis
        by (intro exI [of _ LogEventAction_info])
          (simp add: new_LogEventTypeAction_def getType_def)
    next
      case 2
      then show ?thesis
        by (intro exI [of _ LogEventAction_debug])
          (simp add: new_LogEventTypeAction_def getType_def)
    next
      case 3
      then show ?thesis
        by (intro exI [of _ LogEventAction_verbose])
          (simp add: new_LogEventTypeAction_def getType_def)
    next
      case 4
      then show ?thesis
        by (intro exI [of _ LogEventAction_perf])
          (simp add: new_LogEventTypeAction_def getType_def)
    qed
  qed
next
  show "\<forall>a \<in> spec_legal_actions EventType_audit.
        \<exists>l. EventAction_value (AuditAction l) = a
          \<and> action (new_AuditEventTypeAction (Inl l)) = AuditAction l
          \<and> getType (new_AuditEventTypeAction (Inl l)) = EventType_audit"
    by (intro ballI exI [of _ AuditEventAction_default])
      (simp add: new_AuditEventTypeAction_def getType_def)
next
  show "\<forall>a \<in> spec_legal_actions EventType_error.
        \<exists>l. EventAction_value (ErrorAction l) = a
          \<and> action (new_ErrorEventTypeAction (Inl l)) = ErrorAction l
          \<and> getType (new_ErrorEventTypeAction (Inl l)) = EventType_error"
  proof
    fix a
    assume "a \<in> spec_legal_actions EventType_error"
    then consider "a = ''internal''" | "a = ''external''"
      by auto
    then show "\<exists>l. EventAction_value (ErrorAction l) = a
          \<and> action (new_ErrorEventTypeAction (Inl l)) = ErrorAction l
          \<and> getType (new_ErrorEventTypeAction (Inl l)) = EventType_error"
    proof cases
      case 1
      then show ?thesis
        by (intro exI [of _ ErrorEventAction_internal])
          (simp add: new_ErrorEventTypeAction_def getType_def)
    next
      case 2
      then show ?thesis
        by (intro exI [of _ ErrorEventAction_external])
          (simp add: new_ErrorEventTypeAction_def getType_def)
    qed
  qed
next
  show "\<forall>a \<in> spec_legal_actions EventType_trace.
        \<exists>l. EventAction_value (TraceAction l) = a
          \<and> action (new_TraceEventTypeAction (Inl l)) = TraceAction l
          \<and> getType (new_TraceEventTypeAction (Inl l)) = EventType_trace"
    by (intro ballI exI [of _ TraceEventAction_span])
      (simp add: new_TraceEventTypeAction_def getType_def)
next
  show "spec_legal_actions EventType_undefined = {}"
    by simp
next
  show "\<forall>x. constructible x \<longrightarrow>
        EventAction_value (action x) \<in> spec_legal_actions (getType x)
          \<or> EventAction_value (action x) = ''undefined''"
    using constructible_legal by auto
qed

theorem C1_action_in_category_witness:
  "''debug'' \<in> spec_legal_actions EventType_log
   \<and> (\<exists>l. EventAction_value (LogAction l) = ''debug''
         \<and> action (new_LogEventTypeAction (Inl l)) = LogAction l
         \<and> getType (new_LogEventTypeAction (Inl l)) = EventType_log)
   \<and> constructible (new_TraceEventTypeAction (Inl TraceEventAction_span))
   \<and> EventAction_value (action (new_TraceEventTypeAction (Inl TraceEventAction_span)))
       \<in> spec_legal_actions (getType (new_TraceEventTypeAction (Inl TraceEventAction_span)))
   \<and> getType (new_TraceEventTypeAction (Inl TraceEventAction_span)) = EventType_trace
   \<and> EventAction_value (action (new_TraceEventTypeAction (Inl TraceEventAction_span)))
       = ''span''"
proof -
  note C1 = C1_action_in_category
    [of "Inl LogEventAction_debug" "Inl AuditEventAction_default"
      "Inl ErrorEventAction_internal" "Inl TraceEventAction_span"]
  have d: "''debug'' \<in> spec_legal_actions EventType_log"
    by simp
  from C1 d
  have l: "\<exists>l. EventAction_value (LogAction l) = ''debug''
         \<and> action (new_LogEventTypeAction (Inl l)) = LogAction l
         \<and> getType (new_LogEventTypeAction (Inl l)) = EventType_log"
    by blast
  have c: "constructible (new_TraceEventTypeAction (Inl TraceEventAction_span))"
    by (rule constructible.intros)
  from C1 have t: "getType (new_TraceEventTypeAction (Inl TraceEventAction_span))
      = EventType_trace"
    by blast
  have v: "EventAction_value (action (new_TraceEventTypeAction (Inl TraceEventAction_span)))
       = ''span''"
    by (simp add: new_TraceEventTypeAction_def)
  from C1 c
  have "EventAction_value (action (new_TraceEventTypeAction (Inl TraceEventAction_span)))
       \<in> spec_legal_actions (getType (new_TraceEventTypeAction (Inl TraceEventAction_span)))
     \<or> EventAction_value (action (new_TraceEventTypeAction (Inl TraceEventAction_span)))
       = ''undefined''"
    by blast
  with v have m: "EventAction_value
        (action (new_TraceEventTypeAction (Inl TraceEventAction_span)))
       \<in> spec_legal_actions (getType (new_TraceEventTypeAction (Inl TraceEventAction_span)))"
    by simp
  from d l c m t v show ?thesis by blast
qed

section \<open>The factories of event metadata\<close>

lemma new_EventMetadata_Str:
  "\<exists>m. new_EventMetadata i ta (Str c) st r = Inr m
     \<and> event_type m = getType ta \<and> event_action m = action ta"
  by simp

text \<open>
  Claim C6. For every id, createdAt, state and responseTo,
  \<^verbatim>\<open>EventMetadata.log(id, "debug", createdAt, state)\<close> yields an \<^verbatim>\<open>EventMetadata\<close>
  whose category field (\<^verbatim>\<open>type\<close>) is \<^verbatim>\<open>"log"\<close> and whose action field is
  \<^verbatim>\<open>"debug"\<close>; and each factory (log, audit, error, trace, create) returns an
  \<^verbatim>\<open>EventMetadata\<close> whose category and action are exactly those of the
  \<^verbatim>\<open>EventTypeAction\<close> instance it builds from its arguments.
\<close>

theorem C6_factories:
  "(\<exists>m. EventMetadata_log id' LogEventAction_debug createdAt' state' responseTo' = Inr m
      \<and> EventType_value (event_type m) = ''log''
      \<and> EventAction_value (event_action m) = ''debug'')
   \<and> (\<exists>m. EventMetadata_log id' al createdAt' state' responseTo' = Inr m
      \<and> event_type m = getType (new_LogEventTypeAction (Inl al))
      \<and> event_action m = action (new_LogEventTypeAction (Inl al))
      \<and> event_type m = EventType_log \<and> event_action m = LogAction al)
   \<and> (\<exists>m. EventMetadata_audit id' aa createdAt' state' responseTo' = Inr m
      \<and> event_type m = getType (new_AuditEventTypeAction (Inl aa))
      \<and> event_action m = action (new_AuditEventTypeAction (Inl aa))
      \<and> event_type m = EventType_audit \<and> event_action m = AuditAction aa)
   \<and> (\<exists>m. EventMetadata_error id' ae createdAt' state' responseTo' = Inr m
      \<and> event_type m = getType (new_ErrorEventTypeAction (Inl ae))
      \<and> event_action m = action (new_ErrorEventTypeAction (Inl ae))
      \<and> event_type m = EventType_error \<and> event_action m = ErrorAction ae)
   \<and> (\<exists>m. EventMetadata_trace id' at createdAt' state' responseTo' = Inr m
      \<and> event_type m = getType (new_TraceEventTypeAction (Inl at))
      \<and> event_action m = action (new_TraceEventTypeAction (Inl at))
      \<and> event_type m = EventType_trace \<and> event_action m = TraceAction at)
   \<and> (\<exists>m. EventMetadata_create id' typeAction createdAt' state' responseTo' = Inr m
      \<and> event_type m = getType typeAction \<and> event_action m = action typeAction)"
  by (simp add: EventMetadata_log_def EventMetadata_audit_def EventMetadata_error_def
      EventMetadata_trace_def EventMetadata_create_def new_LogEventTypeAction_def
      new_AuditEventTypeAction_def new_ErrorEventTypeAction_def new_TraceEventTypeAction_def
      getType_def)

theorem C6_factories_witness:
  "EventMetadata_log ''e1'' LogEventAction_debug ''2024-01-15T10:30:00.000Z''
     (new_EventStateMetadata EventStatusType_success None None) None
   = Inr \<lparr>event_id = ''e1'', event_type = EventType_log,
          event_action = LogAction LogEventAction_debug,
          createdAt = ''2024-01-15T10:30:00.000Z'',
          state = \<lparr>status = EventStatusType_success, code = None, description = None\<rparr>,
          responseTo = None\<rparr>"
  using C6_factories [of "''e1''" "''2024-01-15T10:30:00.000Z''"
      "new_EventStateMetadata EventStatusType_success None None" None]
  by (simp add: EventMetadata_log_def new_LogEventTypeAction_def getType_def
      new_EventStateMetadata_def)

section \<open>Construction of trace metadata\<close>

lemma assign_startTimestamp_isl:
  "isl (assign_startTimestamp this ts) = (ts = Some (DateValue InvalidDate))"
proof (cases ts)
  case None
  then show ?thesis by simp
next
  case (Some v)
  show ?thesis
  proof (cases v)
    case (Str s)
    with Some show ?thesis by simp
  next
    case (DateValue d)
    with Some show ?thesis by (cases d) simp_all
  qed
qed

lemma assign_startTimestamp_fields:
  assumes "assign_startTimestamp this ts = Inr obj"
  shows "service obj = service this" and "traceId obj = traceId this"
    and "spanId obj = spanId this" and "parentSpanId obj = parentSpanId this"
    and "finishTimestamp obj = finishTimestamp this"
proof -
  from assms obtain v where "obj = this\<lparr>startTimestamp := v\<rparr>"
  proof (cases ts)
    case None
    with assms that [of "startTimestamp this"] show ?thesis by simp
  next
    case (Some u)
    show ?thesis
    proof (cases u)
      case (Str s)
      with Some assms that [of "startTimestamp this"] that [of "Some s"] show ?thesis
        by (cases "truthy s") simp_all
    next
      case (DateValue d)
      with Some assms that show ?thesis by (cases d) auto
    qed
  qed
  then show "service obj = service this" and "traceId obj = traceId this"
    and "spanId obj = spanId this" and "parentSpanId obj = parentSpanId this"
    and "finishTimestamp obj = finishTimestamp this"
    by simp_all
qed

lemma assign_startTimestamp_value:
  assumes "assign_startTimestamp this ts = Inr obj"
  shows "startTimestamp obj =
     (case ts of
        None \<Rightarrow> startTimestamp this
      | Some (Str s) \<Rightarrow> if s = [] then startTimestamp this else Some s
      | Some (DateValue d) \<Rightarrow> (case d of ValidDate isoString \<Rightarrow> Some isoString
                                 | InvalidDate \<Rightarrow> None))"
proof (cases ts)
  case None
  with assms show ?thesis by auto
next
  case (Some u)
  show ?thesis
  proof (cases u)
    case (Str s)
    with Some assms show ?thesis by (auto simp: truthy_def split: if_splits)
  next
    case (DateValue d)
    with Some assms show ?thesis by (cases d) auto
  qed
qed

lemma new_EventTraceMetadata_unfold:
  "new_EventTraceMetadata clock svc tid sid par sa fl ts =
     (if \<not> RegExp_test TRACE_ID_REGEX tid then Inl (Error (''Invalid traceId: '' @ tid))
      else if \<not> RegExp_test SPAN_ID_REGEX sid then Inl (Error (''Invalid spanId: '' @ sid))
      else if (case par of None \<Rightarrow> False
               | Some p \<Rightarrow> p \<noteq> [] \<and> \<not> RegExp_test SPAN_ID_REGEX p) then
        Inl (Error (''Invalid parentSpanId: '' @ (case par of None \<Rightarrow> ''undefined''
                                                   | Some p \<Rightarrow> p)))
      else assign_startTimestamp
             \<lparr>service = svc, traceId = tid, spanId = sid, parentSpanId = par,
              sampled = sa, flags = fl, startTimestamp = Some clock,
              finishTimestamp = None\<rparr> ts)"
  by (cases par) (simp_all add: new_EventTraceMetadata_def new_Date_def truthy_def)

lemma new_EventTraceMetadata_isl:
  "isl (new_EventTraceMetadata clock svc tid sid par sa fl ts) =
     (\<not> RegExp_test TRACE_ID_REGEX tid \<or> \<not> RegExp_test SPAN_ID_REGEX sid
      \<or> (case par of None \<Rightarrow> False | Some p \<Rightarrow> p \<noteq> [] \<and> \<not> RegExp_test SPAN_ID_REGEX p)
      \<or> ts = Some (DateValue InvalidDate))"
  by (simp add: new_EventTraceMetadata_unfold assign_startTimestamp_isl)

lemma new_EventTraceMetadata_Inr:
  assumes "new_EventTraceMetadata clock svc tid sid par sa fl ts = Inr obj"
  shows "assign_startTimestamp
             \<lparr>service = svc, traceId = tid, spanId = sid, parentSpanId = par,
              sampled = sa, flags = fl, startTimestamp = Some clock,
              finishTimestamp = None\<rparr> ts = Inr obj"
  using assms by (simp add: new_EventTraceMetadata_unfold split: if_splits)

lemma new_EventTraceMetadata_fields:
  assumes "new_EventTraceMetadata clock svc tid sid par sa fl ts = Inr obj"
  shows "service obj = svc" and "traceId obj = tid" and "spanId obj = sid"
    and "parentSpanId obj = par" and "finishTimestamp obj = None"
  using assign_startTimestamp_fields [OF new_EventTraceMetadata_Inr [OF assms]]
  by simp_all

lemma new_EventTraceMetadata_startTimestamp:
  assumes "new_EventTraceMetadata clock svc tid sid par sa fl ts = Inr obj"
  shows "startTimestamp obj =
     (case ts of
        None \<Rightarrow> Some clock
      | Some (Str s) \<Rightarrow> if s = [] then Some clock else Some s
      | Some (DateValue d) \<Rightarrow> (case d of ValidDate isoString \<Rightarrow> Some isoString
                                 | InvalidDate \<Rightarrow> None))"
  using assign_startTimestamp_value [OF new_EventTraceMetadata_Inr [OF assms]]
  by (simp split: option.splits string_or_Date.splits)

text \<open>
  Claim C2, as stated: the constructor raises an error if and only if traceId fails the
  trace-id check, or spanId fails the span-id check, or a present parentSpanId fails the
  span-id check. It fails on the code in both directions. An empty parentSpanId is
  present and fails the span-id check, yet the constructor returns an instance; and with
  three valid identifiers and an invalid \<^verbatim>\<open>Date\<close> as startTimestamp the constructor
  raises the \<^verbatim>\<open>RangeError\<close> of \<^verbatim>\<open>toISOString\<close>.
\<close>

theorem C2_counterexample:
  "\<not> (isl (new_EventTraceMetadata ''2024-01-15T10:30:00.000Z'' ''svc-a''
            ''0123456789abcdef0123456789abcdef'' ''0123456789abcdef'' (Some [])
            None None None)
        = (\<not> RegExp_test TRACE_ID_REGEX ''0123456789abcdef0123456789abcdef''
           \<or> \<not> RegExp_test SPAN_ID_REGEX ''0123456789abcdef''
           \<or> \<not> RegExp_test SPAN_ID_REGEX []))
   \<and> \<not> (isl (new_EventTraceMetadata ''2024-01-15T10:30:00.000Z'' ''svc-a''
            ''0123456789abcdef0123456789abcdef'' ''0123456789abcdef'' None
            None None (Some (DateValue InvalidDate)))
        = (\<not> RegExp_test TRACE_ID_REGEX ''0123456789abcdef0123456789abcdef''
           \<or> \<not> RegExp_test SPAN_ID_REGEX ''0123456789abcdef''))"
  by (simp add: new_EventTraceMetadata_isl TRACE_ID_REGEX_test SPAN_ID_REGEX_test
      lowercase_hex_def)

text \<open>
  Claim C2, amended. The constructor raises an error if and only if traceId fails the
  32-character trace-id check, or spanId fails the 16-character span-id check, or a
  non-empty parentSpanId fails the span-id check, or startTimestamp is an invalid
  \<^verbatim>\<open>Date\<close>. On failure the result is the error alone, no instance; on success the
  stored traceId and spanId are the arguments, unchanged.
\<close>

theorem C2_constructor_fails_iff:
  "isl (new_EventTraceMetadata clock svc tid sid par sa fl ts) =
     (\<not> RegExp_test TRACE_ID_REGEX tid \<or> \<not> RegExp_test SPAN_ID_REGEX sid
      \<or> (case par of None \<Rightarrow> False | Some p \<Rightarrow> p \<noteq> [] \<and> \<not> RegExp_test SPAN_ID_REGEX p)
      \<or> ts = Some (DateValue InvalidDate))
   \<and> (\<forall>obj. new_EventTraceMetadata clock svc tid sid par sa fl ts = Inr obj
        \<longrightarrow> traceId obj = tid \<and> spanId obj = sid)"
proof (intro conjI allI impI)
  show "isl (new_EventTraceMetadata clock svc tid sid par sa fl ts) =
     (\<not> RegExp_test TRACE_ID_REGEX tid \<or> \<not> RegExp_test SPAN_ID_REGEX sid
      \<or> (case par of None \<Rightarrow> False | Some p \<Rightarrow> p \<noteq> [] \<and> \<not> RegExp_test SPAN_ID_REGEX p)
      \<or> ts = Some (DateValue InvalidDate))"
    by (rule new_EventTraceMetadata_isl)
next
  fix obj
  assume "new_EventTraceMetadata clock svc tid sid par sa fl ts = Inr obj"
  then show "traceId obj = tid" and "spanId obj = sid"
    by (rule new_EventTraceMetadata_fields)+
qed

theorem C2_constructor_fails_iff_witness:
  "new_EventTraceMetadata ''2024-01-15T10:30:00.000Z'' ''svc-a''
       ''0123456789abcdef0123456789abcdef'' ''0123456789abcdef'' (Some ''fedcba9876543210'')
       None None None
     = Inr \<lparr>service = ''svc-a'', traceId = ''0123456789abcdef0123456789abcdef'',
            spanId = ''0123456789abcdef'', parentSpanId = Some ''fedcba9876543210'',
            sampled = None, flags = None,
            startTimestamp = Some ''2024-01-15T10:30:00.000Z'', finishTimestamp = None\<rparr>
   \<and> traceId \<lparr>service = ''svc-a'', traceId = ''0123456789abcdef0123456789abcdef'',
            spanId = ''0123456789abcdef'', parentSpanId = Some ''fedcba9876543210'',
            sampled = None, flags = None,
            startTimestamp = Some ''2024-01-15T10:30:00.000Z'', finishTimestamp = None\<rparr>
       = ''0123456789abcdef0123456789abcdef''
   \<and> isl (new_EventTraceMetadata ''2024-01-15T10:30:00.000Z'' ''svc-a''
       (''zz'' @ replicate 30 CHR ''0'') ''0123456789abcdef'' None None None None)"
proof -
  have ok: "new_EventTraceMetadata ''2024-01-15T10:30:00.000Z'' ''svc-a''
       ''0123456789abcdef0123456789abcdef'' ''0123456789abcdef'' (Some ''fedcba9876543210'')
       None None None
     = Inr \<lparr>service = ''svc-a'', traceId = ''0123456789abcdef0123456789abcdef'',
            spanId = ''0123456789abcdef'', parentSpanId = Some ''fedcba9876543210'',
            sampled = None, flags = None,
            startTimestamp = Some ''2024-01-15T10:30:00.000Z'', finishTimestamp = None\<rparr>"
    by (simp add: new_EventTraceMetadata_unfold TRACE_ID_REGEX_test SPAN_ID_REGEX_test
        lowercase_hex_def)
  have bad: "\<not> RegExp_test TRACE_ID_REGEX (''zz'' @ replicate 30 CHR ''0'')"
    by (simp add: TRACE_ID_REGEX_test lowercase_hex_def)
  from C2_constructor_fails_iff [of "''2024-01-15T10:30:00.000Z''" "''svc-a''"
      "''0123456789abcdef0123456789abcdef''" "''0123456789abcdef''"
      "Some ''fedcba9876543210''" None None None] ok
  have stored: "traceId \<lparr>service = ''svc-a'', traceId = ''0123456789abcdef0123456789abcdef'',
            spanId = ''0123456789abcdef'', parentSpanId = Some ''fedcba9876543210'',
            sampled = None, flags = None,
            startTimestamp = Some ''2024-01-15T10:30:00.000Z'', finishTimestamp = None\<rparr>
       = ''0123456789abcdef0123456789abcdef''"
    by blast
  from C2_constructor_fails_iff [of "''2024-01-15T10:30:00.000Z''" "''svc-a''"
      "''zz'' @ replicate 30 CHR ''0''" "''0123456789abcdef''" None None None None] bad
  have "isl (new_EventTraceMetadata ''2024-01-15T10:30:00.000Z'' ''svc-a''
       (''zz'' @ replicate 30 CHR ''0'') ''0123456789abcdef'' None None None None)"
    by blast
  with ok stored show ?thesis by blast
qed

text \<open>
  Claim C8, as stated: every successfully constructed \<^verbatim>\<open>EventTraceMetadata\<close> has a
  non-empty \<^verbatim>\<open>service\<close>. The constructor assigns \<^verbatim>\<open>service\<close> without looking at it,
  so the empty string is stored as it is.
\<close>

theorem C8_counterexample:
  "new_EventTraceMetadata ''2024-01-15T10:30:00.000Z'' []
       ''0123456789abcdef0123456789abcdef'' ''0123456789abcdef'' None None None None
     = Inr \<lparr>service = [], traceId = ''0123456789abcdef0123456789abcdef'',
            spanId = ''0123456789abcdef'', parentSpanId = None,
            sampled = None, flags = None,
            startTimestamp = Some ''2024-01-15T10:30:00.000Z'', finishTimestamp = None\<rparr>"
  by (simp add: new_EventTraceMetadata_unfold TRACE_ID_REGEX_test SPAN_ID_REGEX_test
      lowercase_hex_def)

text \<open>
  Claim C8, amended. For every successfully constructed \<^verbatim>\<open>EventTraceMetadata\<close> the
  \<^verbatim>\<open>service\<close> field is the \<^verbatim>\<open>service\<close> argument, unchanged; the constructor makes no
  check on it, so whether construction succeeds does not depend on the service, and an
  empty service is accepted.
\<close>

theorem C8_service_stored_unchecked:
  "(\<forall>obj. new_EventTraceMetadata clock svc tid sid par sa fl ts = Inr obj
      \<longrightarrow> service obj = svc)
   \<and> isl (new_EventTraceMetadata clock svc tid sid par sa fl ts)
       = isl (new_EventTraceMetadata clock [] tid sid par sa fl ts)"
proof (intro conjI allI impI)
  fix obj
  assume "new_EventTraceMetadata clock svc tid sid par sa fl ts = Inr obj"
  then show "service obj = svc"
    by (rule new_EventTraceMetadata_fields)
next
  show "isl (new_EventTraceMetadata clock svc tid sid par sa fl ts)
       = isl (new_EventTraceMetadata clock [] tid sid par sa fl ts)"
    by (simp only: new_EventTraceMetadata_isl)
qed

theorem C8_service_stored_unchecked_witness:
  "new_EventTraceMetadata ''2024-01-15T10:30:00.000Z'' ''svc-a''
       ''0123456789abcdef0123456789abcdef'' ''0123456789abcdef'' None None None None
     = Inr \<lparr>service = ''svc-a'', traceId = ''0123456789abcdef0123456789abcdef'',
            spanId = ''0123456789abcdef'', parentSpanId = None,
            sampled = None, flags = None,
            startTimestamp = Some ''2024-01-15T10:30:00.000Z'', finishTimestamp = None\<rparr>
   \<and> service \<lparr>service = ''svc-a'', traceId = ''0123456789abcdef0123456789abcdef'',
            spanId = ''0123456789abcdef'', parentSpanId = None,
            sampled = None, flags = None,
            startTimestamp = Some ''2024-01-15T10:30:00.000Z'', finishTimestamp = None\<rparr>
       = ''svc-a''
   \<and> \<not> isl (new_EventTraceMetadata ''2024-01-15T10:30:00.000Z'' []
       ''0123456789abcdef0123456789abcdef'' ''0123456789abcdef'' None None None None)"
proof -
  have ok: "new_EventTraceMetadata ''2024-01-15T10:30:00.000Z'' ''svc-a''
       ''0123456789abcdef0123456789abcdef'' ''0123456789abcdef'' None None None None
     = Inr \<lparr>service = ''svc-a'', traceId = ''0123456789abcdef0123456789abcdef'',
            spanId = ''0123456789abcdef'', parentSpanId = None,
            sampled = None, flags = None,
            startTimestamp = Some ''2024-01-15T10:30:00.000Z'', finishTimestamp = None\<rparr>"
    by (simp add: new_EventTraceMetadata_unfold TRACE_ID_REGEX_test SPAN_ID_REGEX_test
        lowercase_hex_def)
  note inst = C8_service_stored_unchecked [of "''2024-01-15T10:30:00.000Z''" "''svc-a''"
      "''0123456789abcdef0123456789abcdef''" "''0123456789abcdef''" None None None None]
  from inst ok
  have stored: "service \<lparr>service = ''svc-a'', traceId = ''0123456789abcdef0123456789abcdef'',
            spanId = ''0123456789abcdef'', parentSpanId = None,
            sampled = None, flags = None,
            startTimestamp = Some ''2024-01-15T10:30:00.000Z'', finishTimestamp = None\<rparr>
       = ''svc-a''"
    by blast
  from inst ok
  have "\<not> isl (new_EventTraceMetadata ''2024-01-15T10:30:00.000Z'' []
       ''0123456789abcdef0123456789abcdef'' ''0123456789abcdef'' None None None None)"
    by simp
  with ok stored show ?thesis by blast
qed

text \<open>
  Claim C9, as stated: constructing \<^verbatim>\<open>EventTraceMetadata\<close> with a valid traceId and
  spanId and with parentSpanId equal to the empty string succeeds without raising an
  error. The claim puts no condition on startTimestamp, and with an invalid \<^verbatim>\<open>Date\<close>
  there the constructor raises the \<^verbatim>\<open>RangeError\<close> of \<^verbatim>\<open>toISOString\<close>, the
  identifiers and the empty parentSpanId being as the claim asks.
\<close>

theorem C9_counterexample:
  "RegExp_test TRACE_ID_REGEX ''0123456789abcdef0123456789abcdef''
   \<and> RegExp_test SPAN_ID_REGEX ''0123456789abcdef''
   \<and> new_EventTraceMetadata ''2024-01-15T10:30:00.000Z'' ''svc-a''
         ''0123456789abcdef0123456789abcdef'' ''0123456789abcdef'' (Some []) None None
         (Some (DateValue InvalidDate))
       = Inl (RangeError ''Invalid time value'')"
  by (simp add: new_EventTraceMetadata_unfold TRACE_ID_REGEX_test SPAN_ID_REGEX_test
      lowercase_hex_def)

text \<open>
  Claim C9, amended. Constructing \<^verbatim>\<open>EventTraceMetadata\<close> with a valid traceId and
  spanId, with parentSpanId equal to the empty string and with a startTimestamp that is
  omitted, a string or a valid \<^verbatim>\<open>Date\<close> succeeds without raising an error and stores
  the empty string as parentSpanId, although the empty string does not pass the span-id
  check: the guard skips a falsy parentSpanId.
\<close>

theorem C9_empty_parentSpanId_accepted:
  assumes "RegExp_test TRACE_ID_REGEX tid" and "RegExp_test SPAN_ID_REGEX sid"
    and "ts \<noteq> Some (DateValue InvalidDate)"
  shows "\<exists>obj. new_EventTraceMetadata clock svc tid sid (Some []) sa fl ts = Inr obj
      \<and> parentSpanId obj = Some [] \<and> \<not> RegExp_test SPAN_ID_REGEX []"
proof -
  from assms have "\<not> isl (new_EventTraceMetadata clock svc tid sid (Some []) sa fl ts)"
    by (simp add: new_EventTraceMetadata_isl)
  then obtain obj where obj: "new_EventTraceMetadata clock svc tid sid (Some []) sa fl ts = Inr obj"
    by (cases "new_EventTraceMetadata clock svc tid sid (Some []) sa fl ts") simp_all
  then have "parentSpanId obj = Some []"
    by (rule new_EventTraceMetadata_fields)
  moreover have "\<not> RegExp_test SPAN_ID_REGEX []"
    by (simp add: SPAN_ID_REGEX_test)
  ultimately show ?thesis using obj by blast
qed

theorem C9_empty_parentSpanId_accepted_witness:
  "RegExp_test TRACE_ID_REGEX ''0123456789abcdef0123456789abcdef''
   \<and> RegExp_test SPAN_ID_REGEX ''0123456789abcdef''
   \<and> (\<exists>obj. new_EventTraceMetadata ''2024-01-15T10:30:00.000Z'' ''svc-a''
         ''0123456789abcdef0123456789abcdef'' ''0123456789abcdef'' (Some []) None None None
           = Inr obj
       \<and> parentSpanId obj = Some [] \<and> \<not> RegExp_test SPAN_ID_REGEX [])"
proof -
  have t: "RegExp_test TRACE_ID_REGEX ''0123456789abcdef0123456789abcdef''"
    by (simp add: TRACE_ID_REGEX_test lowercase_hex_def)
  have s: "RegExp_test SPAN_ID_REGEX ''0123456789abcdef''"
    by (simp add: SPAN_ID_REGEX_test lowercase_hex_def)
  have d: "(None :: string_or_Date option) \<noteq> Some (DateValue InvalidDate)"
    by simp
  from C9_empty_parentSpanId_accepted [OF t s d] t s show ?thesis
    by blast
qed

section \<open>Start and finish timestamps\<close>

text \<open>
  Claim C5, as stated: on every successful construction, an explicit startTimestamp
  string is stored exactly. The empty string is an explicit string, and the constructor
  leaves the initialiser's value, the time of construction, in its place.
\<close>

theorem C5_counterexample:
  "new_EventTraceMetadata ''2024-01-15T10:30:00.000Z'' ''svc-a''
       ''0123456789abcdef0123456789abcdef'' ''0123456789abcdef'' None None None
       (Some (Str []))
     = Inr \<lparr>service = ''svc-a'', traceId = ''0123456789abcdef0123456789abcdef'',
            spanId = ''0123456789abcdef'', parentSpanId = None,
            sampled = None, flags = None,
            startTimestamp = Some ''2024-01-15T10:30:00.000Z'', finishTimestamp = None\<rparr>
   \<and> Some ''2024-01-15T10:30:00.000Z'' \<noteq> Some []"
  by (simp add: new_EventTraceMetadata_unfold TRACE_ID_REGEX_test SPAN_ID_REGEX_test
      lowercase_hex_def truthy_def)

text \<open>
  Claim C5, amended. For every successful construction: if no startTimestamp argument
  is supplied, \<^verbatim>\<open>startTimestamp\<close> is the ISO 8601 rendering of the time of
  construction; if a non-empty string is supplied, the stored \<^verbatim>\<open>startTimestamp\<close> is
  that string exactly; and a \<^verbatim>\<open>Date\<close> argument is stored as its ISO 8601 rendering.
\<close>

theorem C5_startTimestamp:
  "(\<forall>obj. new_EventTraceMetadata clock svc tid sid par sa fl None = Inr obj
      \<longrightarrow> startTimestamp obj = Some clock)
   \<and> (\<forall>obj. s \<noteq> [] \<and> new_EventTraceMetadata clock svc tid sid par sa fl (Some (Str s)) = Inr obj
      \<longrightarrow> startTimestamp obj = Some s)
   \<and> (\<forall>obj. new_EventTraceMetadata clock svc tid sid par sa fl (Some (DateValue d)) = Inr obj
      \<longrightarrow> toISOString d = Inr isoString \<longrightarrow> startTimestamp obj = Some isoString)"
proof (intro conjI allI impI)
  fix obj
  assume "new_EventTraceMetadata clock svc tid sid par sa fl None = Inr obj"
  from new_EventTraceMetadata_startTimestamp [OF this]
  show "startTimestamp obj = Some clock" by simp
next
  fix obj
  assume "s \<noteq> [] \<and> new_EventTraceMetadata clock svc tid sid par sa fl (Some (Str s)) = Inr obj"
  then have "s \<noteq> []"
    and "new_EventTraceMetadata clock svc tid sid par sa fl (Some (Str s)) = Inr obj"
    by simp_all
  from new_EventTraceMetadata_startTimestamp [OF this(2)] this(1)
  show "startTimestamp obj = Some s" by simp
next
  fix obj
  assume "new_EventTraceMetadata clock svc tid sid par sa fl (Some (DateValue d)) = Inr obj"
    and "toISOString d = Inr isoString"
  from new_EventTraceMetadata_startTimestamp [OF this(1)] this(2)
  show "startTimestamp obj = Some isoString" by (cases d) simp_all
qed

theorem C5_startTimestamp_witness:
  "new_EventTraceMetadata ''2024-01-15T10:30:00.000Z'' ''svc-a''
       ''0123456789abcdef0123456789abcdef'' ''0123456789abcdef'' None None None
       (Some (Str ''2024-01-01T00:00:00.000Z''))
     = Inr \<lparr>service = ''svc-a'', traceId = ''0123456789abcdef0123456789abcdef'',
            spanId = ''0123456789abcdef'', parentSpanId = None,
            sampled = None, flags = None,
            startTimestamp = Some ''2024-01-01T00:00:00.000Z'', finishTimestamp = None\<rparr>
   \<and> startTimestamp
        \<lparr>service = ''svc-a'', traceId = ''0123456789abcdef0123456789abcdef'',
         spanId = ''0123456789abcdef'', parentSpanId = None,
         sampled = None, flags = None,
         startTimestamp = Some ''2024-01-01T00:00:00.000Z'', finishTimestamp = None\<rparr>
       = Some ''2024-01-01T00:00:00.000Z''"
proof -
  have ok: "new_EventTraceMetadata ''2024-01-15T10:30:00.000Z'' ''svc-a''
       ''0123456789abcdef0123456789abcdef'' ''0123456789abcdef'' None None None
       (Some (Str ''2024-01-01T00:00:00.000Z''))
     = Inr \<lparr>service = ''svc-a'', traceId = ''0123456789abcdef0123456789abcdef'',
            spanId = ''0123456789abcdef'', parentSpanId = None,
            sampled = None, flags = None,
            startTimestamp = Some ''2024-01-01T00:00:00.000Z'', finishTimestamp = None\<rparr>"
    by (simp add: new_EventTraceMetadata_unfold TRACE_ID_REGEX_test SPAN_ID_REGEX_test
        lowercase_hex_def truthy_def)
  have ne: "''2024-01-01T00:00:00.000Z'' \<noteq> []"
    by simp
  from C5_startTimestamp [of "''2024-01-15T10:30:00.000Z''" "''svc-a''"
      "''0123456789abcdef0123456789abcdef''" "''0123456789abcdef''" None None None
      "''2024-01-01T00:00:00.000Z''"] ok ne
  have "startTimestamp
        \<lparr>service = ''svc-a'', traceId = ''0123456789abcdef0123456789abcdef'',
         spanId = ''0123456789abcdef'', parentSpanId = None,
         sampled = None, flags = None,
         startTimestamp = Some ''2024-01-01T00:00:00.000Z'', finishTimestamp = None\<rparr>
       = Some ''2024-01-01T00:00:00.000Z''"
    by blast
  with ok show ?thesis by blast
qed

text \<open>
  Claim C10. An empty string as a timestamp argument is treated as if the argument
  were omitted: constructing \<^verbatim>\<open>EventTraceMetadata\<close> with startTimestamp equal to the
  empty string leaves \<^verbatim>\<open>startTimestamp\<close> at the default, the time of construction,
  not the empty string; and \<^verbatim>\<open>finish("")\<close> sets \<^verbatim>\<open>finishTimestamp\<close> to the current
  time, not to the empty string. The rendering of the current time, \<open>clock\<close>, is never
  empty.
\<close>

theorem C10_empty_timestamp_as_omitted:
  assumes "clock \<noteq> []"
  shows "new_EventTraceMetadata clock svc tid sid par sa fl (Some (Str []))
       = new_EventTraceMetadata clock svc tid sid par sa fl None
   \<and> (\<forall>obj. new_EventTraceMetadata clock svc tid sid par sa fl (Some (Str [])) = Inr obj
        \<longrightarrow> startTimestamp obj = Some clock \<and> startTimestamp obj \<noteq> Some [])
   \<and> finish clock this (Some (Str [])) = finish clock this None
   \<and> finish clock this (Some (Str [])) = Inr (this\<lparr>finishTimestamp := Some clock\<rparr>)
   \<and> finishTimestamp (this\<lparr>finishTimestamp := Some clock\<rparr>) \<noteq> Some []"
proof (intro conjI allI impI)
  show "new_EventTraceMetadata clock svc tid sid par sa fl (Some (Str []))
       = new_EventTraceMetadata clock svc tid sid par sa fl None"
    by (simp add: new_EventTraceMetadata_unfold truthy_def)
next
  fix obj
  assume "new_EventTraceMetadata clock svc tid sid par sa fl (Some (Str [])) = Inr obj"
  from new_EventTraceMetadata_startTimestamp [OF this]
  show "startTimestamp obj = Some clock" by simp
  with assms show "startTimestamp obj \<noteq> Some []" by simp
next
  show "finish clock this (Some (Str [])) = finish clock this None"
    by (simp add: truthy_def)
next
  show "finish clock this (Some (Str [])) = Inr (this\<lparr>finishTimestamp := Some clock\<rparr>)"
    by (simp add: truthy_def new_Date_def)
next
  from assms show "finishTimestamp (this\<lparr>finishTimestamp := Some clock\<rparr>) \<noteq> Some []"
    by simp
qed

theorem C10_empty_timestamp_as_omitted_witness:
  "''2024-01-15T10:30:00.000Z'' \<noteq> []
   \<and> new_EventTraceMetadata ''2024-01-15T10:30:00.000Z'' ''svc-a''
       ''0123456789abcdef0123456789abcdef'' ''0123456789abcdef'' None None None
       (Some (Str []))
     = Inr \<lparr>service = ''svc-a'', traceId = ''0123456789abcdef0123456789abcdef'',
            spanId = ''0123456789abcdef'', parentSpanId = None,
            sampled = None, flags = None,
            startTimestamp = Some ''2024-01-15T10:30:00.000Z'', finishTimestamp = None\<rparr>
   \<and> finish ''2024-01-15T10:31:00.000Z''
        \<lparr>service = ''svc-a'', traceId = ''0123456789abcdef0123456789abcdef'',
         spanId = ''0123456789abcdef'', parentSpanId = None,
         sampled = None, flags = None,
         startTimestamp = Some ''2024-01-15T10:30:00.000Z'', finishTimestamp = None\<rparr>
        (Some (Str []))
     = Inr \<lparr>service = ''svc-a'', traceId = ''0123456789abcdef0123456789abcdef'',
            spanId = ''0123456789abcdef'', parentSpanId = None,
            sampled = None, flags = None,
            startTimestamp = Some ''2024-01-15T10:30:00.000Z'',
            finishTimestamp = Some ''2024-01-15T10:31:00.000Z''\<rparr>"
proof -
  have ne: "''2024-01-15T10:30:00.000Z'' \<noteq> []" and ne': "''2024-01-15T10:31:00.000Z'' \<noteq> []"
    by simp_all
  have omitted: "new_EventTraceMetadata ''2024-01-15T10:30:00.000Z'' ''svc-a''
       ''0123456789abcdef0123456789abcdef'' ''0123456789abcdef'' None None None None
     = Inr \<lparr>service = ''svc-a'', traceId = ''0123456789abcdef0123456789abcdef'',
            spanId = ''0123456789abcdef'', parentSpanId = None,
            sampled = None, flags = None,
            startTimestamp = Some ''2024-01-15T10:30:00.000Z'', finishTimestamp = None\<rparr>"
    by (simp add: new_EventTraceMetadata_unfold TRACE_ID_REGEX_test SPAN_ID_REGEX_test
        lowercase_hex_def)
  from C10_empty_timestamp_as_omitted [OF ne, of "''svc-a''"
      "''0123456789abcdef0123456789abcdef''" "''0123456789abcdef''" None None None] omitted
  have a: "new_EventTraceMetadata ''2024-01-15T10:30:00.000Z'' ''svc-a''
       ''0123456789abcdef0123456789abcdef'' ''0123456789abcdef'' None None None
       (Some (Str []))
     = Inr \<lparr>service = ''svc-a'', traceId = ''0123456789abcdef0123456789abcdef'',
            spanId = ''0123456789abcdef'', parentSpanId = None,
            sampled = None, flags = None,
            startTimestamp = Some ''2024-01-15T10:30:00.000Z'', finishTimestamp = None\<rparr>"
    by simp
  from C10_empty_timestamp_as_omitted [OF ne', where this =
      "\<lparr>service = ''svc-a'', traceId = ''0123456789abcdef0123456789abcdef'',
         spanId = ''0123456789abcdef'', parentSpanId = None,
         sampled = None, flags = None,
         startTimestamp = Some ''2024-01-15T10:30:00.000Z'', finishTimestamp = None\<rparr>",
      THEN conjunct2, THEN conjunct2, THEN conjunct2, THEN conjunct1]
  have b: "finish ''2024-01-15T10:31:00.000Z''
        \<lparr>service = ''svc-a'', traceId = ''0123456789abcdef0123456789abcdef'',
         spanId = ''0123456789abcdef'', parentSpanId = None,
         sampled = None, flags = None,
         startTimestamp = Some ''2024-01-15T10:30:00.000Z'', finishTimestamp = None\<rparr>
        (Some (Str []))
     = Inr \<lparr>service = ''svc-a'', traceId = ''0123456789abcdef0123456789abcdef'',
            spanId = ''0123456789abcdef'', parentSpanId = None,
            sampled = None, flags = None,
            startTimestamp = Some ''2024-01-15T10:30:00.000Z'',
            finishTimestamp = Some ''2024-01-15T10:31:00.000Z''\<rparr>"
    by simp
  from ne a b show ?thesis by blast
qed

lemma finish_Inr:
  assumes "finish clock this a = Inr this'"
  shows "\<exists>v. this' = this\<lparr>finishTimestamp := v\<rparr>"
proof (cases a)
  case None
  with assms show ?thesis by (auto simp: new_Date_def)
next
  case (Some u)
  show ?thesis
  proof (cases u)
    case (Str s)
    with Some assms show ?thesis by (auto simp: new_Date_def split: if_splits)
  next
    case (DateValue d)
    with Some assms show ?thesis by (cases d) auto
  qed
qed

lemma finish_overwrites:
  "finish clock (this\<lparr>finishTimestamp := v\<rparr>) a = finish clock this a"
proof (cases a)
  case None
  then show ?thesis by (simp add: new_Date_def)
next
  case (Some u)
  show ?thesis
  proof (cases u)
    case (Str s)
    with Some show ?thesis by (simp add: new_Date_def)
  next
    case (DateValue d)
    with Some show ?thesis by (cases d) simp_all
  qed
qed

text \<open>
  Claim C4, as stated: \<^verbatim>\<open>finish\<close> called with an explicit string sets
  \<^verbatim>\<open>finishTimestamp\<close> to exactly that string. The empty string is an explicit string,
  and \<^verbatim>\<open>finish("")\<close> stores the current time instead.
\<close>

theorem C4_counterexample:
  "finish ''2024-01-15T10:31:00.000Z''
        \<lparr>service = ''svc-a'', traceId = ''0123456789abcdef0123456789abcdef'',
         spanId = ''0123456789abcdef'', parentSpanId = None,
         sampled = None, flags = None,
         startTimestamp = Some ''2024-01-15T10:30:00.000Z'', finishTimestamp = None\<rparr>
        (Some (Str []))
     = Inr \<lparr>service = ''svc-a'', traceId = ''0123456789abcdef0123456789abcdef'',
            spanId = ''0123456789abcdef'', parentSpanId = None,
            sampled = None, flags = None,
            startTimestamp = Some ''2024-01-15T10:30:00.000Z'',
            finishTimestamp = Some ''2024-01-15T10:31:00.000Z''\<rparr>
   \<and> Some ''2024-01-15T10:31:00.000Z'' \<noteq> Some []"
  by (simp add: truthy_def new_Date_def)

text \<open>
  Claim C4, amended. \<^verbatim>\<open>finish\<close> called with no argument sets \<^verbatim>\<open>finishTimestamp\<close> to
  the current time in ISO 8601 form; called with a non-empty string it sets
  \<^verbatim>\<open>finishTimestamp\<close> to exactly that string; called with a \<^verbatim>\<open>Date\<close> that has an
  ISO 8601 rendering it sets \<^verbatim>\<open>finishTimestamp\<close> to that rendering; and a call made
  after an earlier call has returned gives what it gives without the earlier call, so
  that only the value of the second call is left (last write wins, no guard against
  finishing twice).
\<close>

theorem C4_finish:
  "finish clock this None = Inr (this\<lparr>finishTimestamp := Some clock\<rparr>)
   \<and> (s \<noteq> [] \<longrightarrow>
        finish clock this (Some (Str s)) = Inr (this\<lparr>finishTimestamp := Some s\<rparr>))
   \<and> (toISOString d = Inr isoString \<longrightarrow>
        finish clock this (Some (DateValue d)) = Inr (this\<lparr>finishTimestamp := Some isoString\<rparr>))
   \<and> (\<forall>this'. finish clock' this a' = Inr this' \<longrightarrow>
        finish clock this' a = finish clock this a)"
proof (intro conjI allI impI)
  show "finish clock this None = Inr (this\<lparr>finishTimestamp := Some clock\<rparr>)"
    by (simp add: new_Date_def)
next
  assume "s \<noteq> []"
  then show "finish clock this (Some (Str s)) = Inr (this\<lparr>finishTimestamp := Some s\<rparr>)"
    by (simp add: truthy_def)
next
  assume "toISOString d = Inr isoString"
  then show "finish clock this (Some (DateValue d))
      = Inr (this\<lparr>finishTimestamp := Some isoString\<rparr>)"
    by simp
next
  fix this'
  assume "finish clock' this a' = Inr this'"
  from finish_Inr [OF this] obtain v where "this' = this\<lparr>finishTimestamp := v\<rparr>" ..
  then show "finish clock this' a = finish clock this a"
    by (simp only: finish_overwrites)
qed

theorem C4_finish_witness:
  "finish ''2024-01-15T10:31:00.000Z''
        \<lparr>service = ''svc-a'', traceId = ''0123456789abcdef0123456789abcdef'',
         spanId = ''0123456789abcdef'', parentSpanId = None,
         sampled = None, flags = None,
         startTimestamp = Some ''2024-01-15T10:30:00.000Z'', finishTimestamp = None\<rparr>
        (Some (Str ''2024-01-01T00:00:00.000Z''))
     = Inr \<lparr>service = ''svc-a'', traceId = ''0123456789abcdef0123456789abcdef'',
            spanId = ''0123456789abcdef'', parentSpanId = None,
            sampled = None, flags = None,
            startTimestamp = Some ''2024-01-15T10:30:00.000Z'',
            finishTimestamp = Some ''2024-01-01T00:00:00.000Z''\<rparr>
   \<and> finish ''2024-01-15T10:32:00.000Z''
        \<lparr>service = ''svc-a'', traceId = ''0123456789abcdef0123456789abcdef'',
         spanId = ''0123456789abcdef'', parentSpanId = None,
         sampled = None, flags = None,
         startTimestamp = Some ''2024-01-15T10:30:00.000Z'',
         finishTimestamp = Some ''2024-01-01T00:00:00.000Z''\<rparr>
        (Some (DateValue (ValidDate ''2024-02-02T00:00:00.000Z'')))
     = Inr \<lparr>service = ''svc-a'', traceId = ''0123456789abcdef0123456789abcdef'',
            spanId = ''0123456789abcdef'', parentSpanId = None,
            sampled = None, flags = None,
            startTimestamp = Some ''2024-01-15T10:30:00.000Z'',
            finishTimestamp = Some ''2024-02-02T00:00:00.000Z''\<rparr>"
proof -
  have ne: "''2024-01-01T00:00:00.000Z'' \<noteq> []"
    by simp
  have iso: "toISOString (ValidDate ''2024-02-02T00:00:00.000Z'')
      = Inr ''2024-02-02T00:00:00.000Z''"
    by simp
  note first = C4_finish [where s = "''2024-01-01T00:00:00.000Z''"
      and clock = "''2024-01-15T10:31:00.000Z''"
      and this = "\<lparr>service = ''svc-a'', traceId = ''0123456789abcdef0123456789abcdef'',
         spanId = ''0123456789abcdef'', parentSpanId = None,
         sampled = None, flags = None,
         startTimestamp = Some ''2024-01-15T10:30:00.000Z'', finishTimestamp = None\<rparr>",
      THEN conjunct2, THEN conjunct1, rule_format, OF ne]
  note second = C4_finish [where d = "ValidDate ''2024-02-02T00:00:00.000Z''"
      and isoString = "''2024-02-02T00:00:00.000Z''"
      and clock = "''2024-01-15T10:32:00.000Z''"
      and this = "\<lparr>service = ''svc-a'', traceId = ''0123456789abcdef0123456789abcdef'',
         spanId = ''0123456789abcdef'', parentSpanId = None,
         sampled = None, flags = None,
         startTimestamp = Some ''2024-01-15T10:30:00.000Z'',
         finishTimestamp = Some ''2024-01-01T00:00:00.000Z''\<rparr>",
      THEN conjunct2, THEN conjunct2, THEN conjunct1, rule_format, OF iso]
  from first second show ?thesis
    by simp
qed

end
